theory Spec2Isabelle
  imports Complex_Main
begin

text \<open>
  The scene-sampling, indexing and retrieval pipeline of the repository as functions
  of HOL: \<open>scene_utils.py\<close>, \<open>clip_embeddings.py\<close>, \<open>chromadb_manager.py\<close>,
  \<open>main.py\<close> and \<open>text_search.py\<close>, each function under the name it has in the source.
  Python integers are \<open>int\<close>; floating-point numbers (thresholds, distances, the
  components of an embedding) are real numbers; strings are lists of characters.
  The console is part of the world in \<open>main.py\<close>, whose messages carry emoji that a
  console may refuse to encode, so that \<open>print\<close> raises there; the progress messages
  of the other modules are left out.
\<close>

section \<open>Python values used by the pipeline\<close>

text \<open>
  Exceptions are values. \<open>ZeroDivisionError\<close> and \<open>IndexError\<close> are the two that the
  repository's own expressions can raise on well-typed inputs; \<open>External m\<close> stands for
  any \<open>Exception\<close> raised inside a library the repository calls (scenedetect, OpenCV,
  CLIP, ChromaDB), with its message \<open>m\<close>. Interrupts (\<open>KeyboardInterrupt\<close>,
  \<open>SystemExit\<close>), which \<open>except Exception\<close> does not catch, are outside the model.
\<close>

datatype py_exception = ZeroDivisionError | IndexError | External string

text \<open>\<open>str(e)\<close> of an exception.\<close>

fun str_exc :: "py_exception \<Rightarrow> string" where
  "str_exc ZeroDivisionError = ''division by zero''"
| "str_exc IndexError = ''list index out of range''"
| "str_exc (External m) = m"

text \<open>
  \<open>round(a / b)\<close> for Python integers \<open>a\<close> and \<open>b \<noteq> 0\<close>: true division followed by
  rounding to the nearest integer, ties going to the even neighbour. The quotient is
  taken exactly, which is what the floating-point computation yields for frame numbers
  (far below \<open>2 ^ 52\<close>). The sign of the divisor is moved to the numerator first, so
  that \<open>div\<close> and \<open>mod\<close> are taken with a positive divisor.
\<close>

definition py_round_div :: "int \<Rightarrow> int \<Rightarrow> int" where
  "py_round_div a b =
     (let n = a * sgn b; d = \<bar>b\<bar>; q = n div d; r = n mod d
      in if 2 * r < d then q
         else if d < 2 * r then q + 1
         else if even q then q else q + 1)"

text \<open>\<open>str(n)\<close> for a Python integer: decimal digits, with a leading minus sign.\<close>

definition digit_char :: "nat \<Rightarrow> char" where
  "digit_char d = ''0123456789'' ! d"

fun str_nat :: "nat \<Rightarrow> string" where
  "str_nat n = (if n < 10 then [digit_char n] else str_nat (n div 10) @ [digit_char (n mod 10)])"

declare str_nat.simps [simp del]

definition str_int :: "int \<Rightarrow> string" where
  "str_int i = (if i < 0 then CHR ''-'' # str_nat (nat (- i)) else str_nat (nat i))"

section \<open>Records of the index\<close>

text \<open>
  A dictionary with fixed keys is a record. Its fields are the keys of the source behind
  a prefix (\<open>md_\<close>, \<open>rec_\<close>, \<open>qr_\<close>, \<open>res_\<close>, \<open>rep_\<close>), which keeps them apart from the local
  variables of the same names.
\<close>

text \<open>The metadata dictionary of a stored frame.\<close>

record frame_metadata =
  md_video_path :: string
  md_scene_idx :: int
  md_frame_idx :: int
  md_frame_sample :: int
  md_video_name :: string

text \<open>One item of \<open>embeddings_data\<close>, with the keys \<open>id\<close>, \<open>embedding\<close>, \<open>metadata\<close>.\<close>

record frame_record =
  rec_id :: string
  rec_embedding :: "real list"
  rec_metadata :: frame_metadata

text \<open>
  The dictionary a ChromaDB query returns, with the keys \<open>ids\<close>, \<open>distances\<close>,
  \<open>metadatas\<close>: one inner list per query vector.
\<close>

record query_result =
  qr_ids :: "string list list"
  qr_distances :: "real list list"
  qr_metadatas :: "frame_metadata list list"

datatype py_value = PyInt int | PyStr string

section \<open>The world outside the repository\<close>

text \<open>
  Every library call of the pipeline is a field of the record \<open>world\<close>, so that the
  repository's functions are functions of it. \<open>'img\<close> is a decoded frame, \<open>'c\<close> the
  state of the persistent ChromaDB collection.
  \<^item> \<open>path_exists\<close>: \<open>os.path.exists\<close>; \<open>makedirs d\<close>: \<open>os.makedirs(d, exist_ok=True)\<close>,
    \<open>None\<close> when it returns; \<open>cap_isOpened p\<close>: \<open>cv2.VideoCapture(p).isOpened()\<close>;
    \<open>cap_frame_count p\<close>: \<open>int(cap.get(cv2.CAP_PROP_FRAME_COUNT))\<close>;
  \<^item> \<open>sd_scene_list p t\<close>: the list that scenedetect's \<open>get_scene_list\<close> returns for the
    video \<open>p\<close> at threshold \<open>t\<close>, each scene as the pair of the \<open>frame_num\<close>s of its two
    timecodes, or the exception raised on the way;
  \<^item> \<open>cap_read p n\<close>: \<open>cap.set(1, n); ret, frame = cap.read()\<close> on the video \<open>p\<close>;
    \<open>None\<close> is \<open>ret = False\<close>;
  \<^item> \<open>clip_image_features\<close>: \<open>get_clip_embeddings\<close> of the decoded frame (conversion to
    an image, encoder, normalisation); \<open>clip_text_features\<close> the same for a text;
    \<open>clip_from_pretrained\<close>: loading the encoder, \<open>None\<close> when it succeeds;
  \<^item> \<open>format_3f\<close>: Python's \<open>{:.3f}\<close> of a float;
  \<^item> \<open>chroma_open c db_path name\<close>: the constructor of \<open>ChromaDBManager\<close>, which opens
    the client and gets or creates the collection; it gives the collection, or the
    exception it raises;
  \<^item> \<open>coll_count\<close>, \<open>coll_add\<close>, \<open>coll_query\<close>, \<open>coll_query_where\<close>, \<open>coll_delete\<close>:
    the methods \<open>count\<close>, \<open>add\<close>, \<open>query(query_embeddings=\<dots>)\<close>, \<open>query(where=\<dots>)\<close>
    and \<open>delete\<close> of the collection. \<open>add\<close> and \<open>delete\<close> return the collection they
    leave behind together with the exception they raised, if any;
  \<^item> \<open>console_print s\<close>: \<open>print(s)\<close> in \<open>main.py\<close>, \<open>None\<close> when it returns; the string
    is the UTF-8 encoding of the message.
\<close>

record ('img, 'c) world =
  path_exists :: "string \<Rightarrow> bool"
  makedirs :: "string \<Rightarrow> py_exception option"
  cap_isOpened :: "string \<Rightarrow> bool"
  cap_frame_count :: "string \<Rightarrow> int"
  cap_read :: "string \<Rightarrow> int \<Rightarrow> py_exception + 'img option"
  sd_scene_list :: "string \<Rightarrow> real \<Rightarrow> py_exception + (int \<times> int) list"
  clip_from_pretrained :: "py_exception option"
  clip_image_features :: "'img \<Rightarrow> py_exception + real list"
  clip_text_features :: "string \<Rightarrow> py_exception + real list"
  format_3f :: "real \<Rightarrow> string"
  chroma_open :: "'c \<Rightarrow> string \<Rightarrow> string \<Rightarrow> py_exception + 'c"
  coll_count :: "'c \<Rightarrow> py_exception + int"
  coll_add :: "'c \<Rightarrow> string list \<Rightarrow> real list list \<Rightarrow> frame_metadata list
                 \<Rightarrow> py_exception option \<times> 'c"
  coll_query :: "'c \<Rightarrow> real list \<Rightarrow> int \<Rightarrow> py_exception + query_result"
  coll_query_where :: "'c \<Rightarrow> (string \<times> py_value) list \<Rightarrow> int \<Rightarrow> py_exception + query_result"
  coll_delete :: "'c \<Rightarrow> string list \<Rightarrow> py_exception option \<times> 'c"
  console_print :: "string \<Rightarrow> py_exception option"

section \<open>scene\_utils.py\<close>

definition detect_scenes ::
  "('img, 'c) world \<Rightarrow> string \<Rightarrow> real \<Rightarrow> py_exception + (int \<times> int) list" where
  "detect_scenes w video_path threshold = sd_scene_list w video_path threshold"

text \<open>
  The body of the loop of \<open>get_scene_frame_samples\<close> for one scene. The division raises
  when \<open>no_of_samples\<close> is zero; the comprehension runs over \<open>range(3)\<close>, as the source
  has it, whatever \<open>no_of_samples\<close> is.
\<close>

definition local_samples :: "int \<times> int \<Rightarrow> int \<Rightarrow> py_exception + int list" where
  "local_samples scene no_of_samples =
     (let scene_length = \<bar>fst scene - snd scene\<bar>
      in if no_of_samples = 0 then Inl ZeroDivisionError
         else let every_n = py_round_div scene_length no_of_samples
              in Inr (map (\<lambda>n. every_n * int n + fst scene) [0..<3]))"

fun scenes_loop :: "(int \<times> int) list \<Rightarrow> int \<Rightarrow> py_exception + int list list" where
  "scenes_loop [] no_of_samples = Inr []"
| "scenes_loop (scene # scenes) no_of_samples =
     (case local_samples scene no_of_samples of
        Inl e \<Rightarrow> Inl e
      | Inr ls \<Rightarrow>
          (case scenes_loop scenes no_of_samples of
             Inl e \<Rightarrow> Inl e
           | Inr rest \<Rightarrow> Inr (ls # rest)))"

definition get_scene_frame_samples ::
  "('img, 'c) world \<Rightarrow> string \<Rightarrow> int \<Rightarrow> real \<Rightarrow> py_exception + int list list" where
  "get_scene_frame_samples w video_path no_of_samples threshold =
     (case detect_scenes w video_path threshold of
        Inl e \<Rightarrow> Inl e
      | Inr scenes \<Rightarrow> scenes_loop scenes no_of_samples)"

section \<open>clip\_embeddings.py\<close>

definition get_clip_embeddings :: "('img, 'c) world \<Rightarrow> 'img \<Rightarrow> py_exception + real list" where
  "get_clip_embeddings w img = clip_image_features w img"

text \<open>\<open>os.path.basename\<close>: what follows the last slash.\<close>

definition basename :: "string \<Rightarrow> string" where
  "basename p = rev (takeWhile (\<lambda>c. c \<noteq> CHR ''/'') (rev p))"

text \<open>
  The f-string \<open>f"scene_{scene_idx}_frame_{frame_idx}_sample_{frame_sample}"\<close> that
  \<open>process_video_embeddings\<close> assigns to its variable \<open>frame_id\<close>.
\<close>

definition frame_id :: "int \<Rightarrow> int \<Rightarrow> int \<Rightarrow> string" where
  "frame_id scene_idx frame_idx frame_sample =
     ''scene_'' @ str_int scene_idx @ ''_frame_'' @ str_int frame_idx
       @ ''_sample_'' @ str_int frame_sample"

text \<open>
  The loop over the thresholds: it keeps the first non-empty answer and leaves the
  last (empty) one when no threshold finds a scene. An exception of the detector is
  not caught here.
\<close>

fun threshold_loop ::
  "('img, 'c) world \<Rightarrow> string \<Rightarrow> real list \<Rightarrow> py_exception + int list list" where
  "threshold_loop w video_path [] = Inr []"
| "threshold_loop w video_path (threshold # thresholds) =
     (case get_scene_frame_samples w video_path 3 threshold of
        Inl e \<Rightarrow> Inl e
      | Inr scenes_frame_samples \<Rightarrow>
          if scenes_frame_samples \<noteq> [] then Inr scenes_frame_samples
          else threshold_loop w video_path thresholds)"

text \<open>
  The fallback: \<open>[int(total_frames * i / 3) for i in range(3)]\<close>. It is evaluated only
  under \<open>total_frames > 0\<close>, where truncation is the floor.
\<close>

definition fallback_samples :: "int \<Rightarrow> int list" where
  "fallback_samples total_frames = map (\<lambda>i. (total_frames * int i) div 3) [0..<3]"

text \<open>
  The first half of the \<open>try\<close> block of \<open>process_video_embeddings\<close>: the value of
  \<open>scenes_frame_samples\<close> when the loop over the scenes starts, \<open>None\<close> when the function
  has returned \<open>[]\<close> before.
\<close>

definition select_scenes_frame_samples ::
  "('img, 'c) world \<Rightarrow> string \<Rightarrow> py_exception + int list list option" where
  "select_scenes_frame_samples w video_path =
     (case threshold_loop w video_path [15, 10, 5, 2] of
        Inl e \<Rightarrow> Inl e
      | Inr scenes_frame_samples \<Rightarrow>
          if scenes_frame_samples \<noteq> [] then Inr (Some scenes_frame_samples)
          else let total_frames = cap_frame_count w video_path
               in if total_frames > 0 then Inr (Some [fallback_samples total_frames])
                  else Inr None)"

text \<open>
  The inner loop, over \<open>enumerate(scene_samples)\<close>: a frame that cannot be read is
  skipped, its index is used up all the same.
\<close>

fun samples_loop ::
  "('img, 'c) world \<Rightarrow> string \<Rightarrow> int \<Rightarrow> int \<Rightarrow> int list \<Rightarrow> py_exception + frame_record list" where
  "samples_loop w video_path scene_idx frame_idx [] = Inr []"
| "samples_loop w video_path scene_idx frame_idx (frame_sample # scene_samples) =
     (case cap_read w video_path frame_sample of
        Inl e \<Rightarrow> Inl e
      | Inr None \<Rightarrow> samples_loop w video_path scene_idx (frame_idx + 1) scene_samples
      | Inr (Some frame) \<Rightarrow>
          (case get_clip_embeddings w frame of
             Inl e \<Rightarrow> Inl e
           | Inr embedding \<Rightarrow>
               (case samples_loop w video_path scene_idx (frame_idx + 1) scene_samples of
                  Inl e \<Rightarrow> Inl e
                | Inr rest \<Rightarrow>
                    Inr (\<lparr>rec_id = frame_id scene_idx frame_idx frame_sample,
                          rec_embedding = embedding,
                          rec_metadata =
                            \<lparr>md_video_path = video_path, md_scene_idx = scene_idx,
                             md_frame_idx = frame_idx, md_frame_sample = frame_sample,
                             md_video_name = basename video_path\<rparr>\<rparr> # rest))))"

fun embed_scenes_loop ::
  "('img, 'c) world \<Rightarrow> string \<Rightarrow> int \<Rightarrow> int list list \<Rightarrow> py_exception + frame_record list" where
  "embed_scenes_loop w video_path scene_idx [] = Inr []"
| "embed_scenes_loop w video_path scene_idx (scene_samples # scenes_frame_samples) =
     (case samples_loop w video_path scene_idx 0 scene_samples of
        Inl e \<Rightarrow> Inl e
      | Inr here \<Rightarrow>
          (case embed_scenes_loop w video_path (scene_idx + 1) scenes_frame_samples of
             Inl e \<Rightarrow> Inl e
           | Inr rest \<Rightarrow> Inr (here @ rest)))"

definition process_video_embeddings ::
  "('img, 'c) world \<Rightarrow> string \<Rightarrow> py_exception + frame_record list" where
  "process_video_embeddings w video_path =
     (if \<not> path_exists w video_path then Inr []
      else if \<not> cap_isOpened w video_path then Inr []
      else case select_scenes_frame_samples w video_path of
             Inl e \<Rightarrow> Inl e
           | Inr None \<Rightarrow> Inr []
           | Inr (Some scenes_frame_samples) \<Rightarrow>
               embed_scenes_loop w video_path 0 scenes_frame_samples)"

section \<open>chromadb\_manager.py\<close>

text \<open>The attributes of a \<open>ChromaDBManager\<close>, behind the prefix \<open>self_\<close>.\<close>

record 'c manager =
  self_db_path :: string
  self_collection_name :: string
  self_collection :: 'c

definition ChromaDBManager ::
  "('img, 'c) world \<Rightarrow> 'c \<Rightarrow> string \<Rightarrow> string \<Rightarrow> py_exception + 'c manager" where
  "ChromaDBManager w c db_path collection_name =
     (case chroma_open w c db_path collection_name of
        Inl e \<Rightarrow> Inl e
      | Inr c' \<Rightarrow> Inr \<lparr>self_db_path = db_path, self_collection_name = collection_name,
                        self_collection = c'\<rparr>)"

text \<open>
  Each method below is one \<open>try\<close> block with the handler \<open>except Exception\<close>: an
  exception of a library call is a branch that returns the handler's value. The
  methods return their value together with the manager, whose collection they may
  have changed.
\<close>

definition save_embeddings ::
  "('img, 'c) world \<Rightarrow> 'c manager \<Rightarrow> frame_record list \<Rightarrow> bool \<times> 'c manager" where
  "save_embeddings w self embeddings_data =
     (if embeddings_data = [] then (False, self)
      else
        let ids = map rec_id embeddings_data;
            embeddings = map rec_embedding embeddings_data;
            metadatas = map rec_metadata embeddings_data
        in case coll_count w (self_collection self) of
             Inl e \<Rightarrow> (False, self)
           | Inr existing_count \<Rightarrow>
               (case coll_add w (self_collection self) ids embeddings metadatas of
                  (Some e, c') \<Rightarrow> (False, self\<lparr>self_collection := c'\<rparr>)
                | (None, c') \<Rightarrow>
                    (case coll_count w c' of
                       Inl e \<Rightarrow> (False, self\<lparr>self_collection := c'\<rparr>)
                     | Inr new_count \<Rightarrow> (True, self\<lparr>self_collection := c'\<rparr>))))"


text \<open>The dictionary of \<open>get_collection_info\<close> is an association list; \<open>{}\<close> is \<open>[]\<close>.\<close>

definition get_collection_info ::
  "('img, 'c) world \<Rightarrow> 'c manager \<Rightarrow> (string \<times> py_value) list" where
  "get_collection_info w self =
     (case coll_count w (self_collection self) of
        Inl e \<Rightarrow> []
      | Inr cnt \<Rightarrow>
          [(''collection_name'', PyStr (self_collection_name self)),
           (''total_embeddings'', PyInt cnt),
           (''db_path'', PyStr (self_db_path self))])"



section \<open>main.py\<close>

text \<open>
  The dictionary \<open>result\<close> of \<open>process_video_to_chromadb\<close>. The key \<open>error\<close> holds \<open>None\<close>
  or a message.
\<close>

record outcome =
  res_success :: bool
  res_video_path :: string
  res_embeddings_count :: int
  res_error :: "string option"
  res_collection_info :: "(string \<times> py_value) list"

text \<open>
  The three emoji of the messages (U+2705, U+1F4CA, U+274C) in UTF-8, and the line
  feed.
\<close>

definition check_mark :: string where
  "check_mark = [CHR 0xE2, CHR 0x9C, CHR 0x85]"

definition bar_chart :: string where
  "bar_chart = [CHR 0xF0, CHR 0x9F, CHR 0x93, CHR 0x8A]"

definition cross_mark :: string where
  "cross_mark = [CHR 0xE2, CHR 0x9D, CHR 0x8C]"

definition line_feed :: string where
  "line_feed = [CHR 0x0A]"

text \<open>
  \<open>print(message)\<close> followed by the rest of the block: when \<open>print\<close> raises, control
  goes where an exception goes at that place (\<open>on_raise\<close>), otherwise on.
\<close>

definition print_then ::
  "('img, 'c) world \<Rightarrow> string \<Rightarrow> (py_exception \<Rightarrow> 'a) \<Rightarrow> 'a \<Rightarrow> 'a" where
  "print_then w message on_raise continue =
     (case console_print w message of
        Some e \<Rightarrow> on_raise e
      | None \<Rightarrow> continue)"

text \<open>\<open>d.get(key, 0)\<close> inside an f-string.\<close>

definition get_or_zero :: "(string \<times> py_value) list \<Rightarrow> string \<Rightarrow> string" where
  "get_or_zero d key =
     (case map_of d key of
        None \<Rightarrow> str_int 0
      | Some (PyInt n) \<Rightarrow> str_int n
      | Some (PyStr t) \<Rightarrow> t)"

text \<open>
  The handler \<open>except Exception as e\<close> of \<open>process_video_to_chromadb\<close>: it stores the
  message in the \<open>result\<close> of that moment, prints, and returns \<open>result\<close>. Its \<open>print\<close> is
  not inside a \<open>try\<close> block, so an exception it raises leaves the function.
\<close>

definition except_handler ::
  "('img, 'c) world \<Rightarrow> outcome \<Rightarrow> py_exception \<Rightarrow> py_exception + outcome" where
  "except_handler w result e =
     print_then w (cross_mark @ '' Error processing video: '' @ str_exc e)
       Inl
       (Inr (result\<lparr>res_error := Some (''Unexpected error: '' @ str_exc e)\<rparr>))"

text \<open>
  The function returns \<open>result\<close> or raises; the model returns with it the state of the
  store it leaves behind. The whole body is one \<open>try\<close> block: an exception of a
  library call or of a \<open>print\<close> goes to the handler with the \<open>result\<close> of that moment,
  which is the initial one before \<open>result.update\<close> and the updated one for the two
  prints after it.
\<close>

definition process_video_to_chromadb ::
  "('img, 'c) world \<Rightarrow> 'c \<Rightarrow> string \<Rightarrow> string \<Rightarrow> string \<Rightarrow> (py_exception + outcome) \<times> 'c" where
  "process_video_to_chromadb w c video_path db_path collection_name =
     (let result = \<lparr>res_success = False, res_video_path = video_path,
                     res_embeddings_count = 0, res_error = None,
                     res_collection_info = []\<rparr>
      in if \<not> path_exists w video_path
         then (Inr (result\<lparr>res_error := Some (''Video file not found: '' @ video_path)\<rparr>), c)
         else
           print_then w (''Processing video: '' @ basename video_path)
             (\<lambda>e. (except_handler w result e, c))
          (print_then w (''Full path: '' @ video_path)
             (\<lambda>e. (except_handler w result e, c))
          (case ChromaDBManager w c db_path collection_name of
             Inl e \<Rightarrow> (except_handler w result e, c)
           | Inr db_manager \<Rightarrow>
               print_then w ''Generating CLIP embeddings...''
                 (\<lambda>e. (except_handler w result e, self_collection db_manager))
              (case process_video_embeddings w video_path of
                 Inl e \<Rightarrow> (except_handler w result e, self_collection db_manager)
               | Inr embeddings_data \<Rightarrow>
                   if embeddings_data = []
                   then (Inr (result\<lparr>res_error := Some ''No embeddings generated from video''\<rparr>),
                         self_collection db_manager)
                   else
                     print_then w
                       (''Generated '' @ str_int (int (length embeddings_data)) @ '' embeddings'')
                       (\<lambda>e. (except_handler w result e, self_collection db_manager))
                    (print_then w ''Saving embeddings to ChromaDB...''
                       (\<lambda>e. (except_handler w result e, self_collection db_manager))
                    (let (success, db_manager') =
                           save_embeddings w db_manager embeddings_data
                     in if \<not> success
                        then (Inr (result\<lparr>res_error :=
                                             Some ''Failed to save embeddings to ChromaDB''\<rparr>),
                              self_collection db_manager')
                        else
                          let collection_info = get_collection_info w db_manager';
                              result' = result\<lparr>res_success := True,
                                          res_embeddings_count := int (length embeddings_data),
                                          res_collection_info := collection_info\<rparr>
                          in print_then w
                               (check_mark @ '' Successfully processed video and saved ''
                                  @ str_int (int (length embeddings_data)) @ '' embeddings'')
                               (\<lambda>e. (except_handler w result' e, self_collection db_manager'))
                            (print_then w
                               (bar_chart @ '' Collection now has ''
                                  @ get_or_zero collection_info ''total_embeddings''
                                  @ '' total embeddings'')
                               (\<lambda>e. (except_handler w result' e, self_collection db_manager'))
                               (Inr result', self_collection db_manager'))))))))"

text \<open>
  The loop of \<open>process_multiple_videos\<close> over \<open>enumerate(video_paths, 1)\<close>, with the
  number \<open>n\<close> of paths and the index \<open>i\<close> of the next one. Nothing in the loop is
  inside a \<open>try\<close> block: when a \<open>print\<close> or \<open>process_video_to_chromadb\<close> raises, the
  function raises and the results gathered so far are lost.
\<close>

fun videos_loop ::
  "('img, 'c) world \<Rightarrow> 'c \<Rightarrow> int \<Rightarrow> int \<Rightarrow> string list \<Rightarrow> string \<Rightarrow> string
     \<Rightarrow> (py_exception + outcome list) \<times> 'c" where
  "videos_loop w c n i [] db_path collection_name = (Inr [], c)"
| "videos_loop w c n i (video_path # video_paths) db_path collection_name =
     print_then w
       (line_feed @ ''['' @ str_int i @ ''/'' @ str_int n @ ''] Processing: ''
          @ basename video_path)
       (\<lambda>e. (Inl e, c))
    (print_then w (replicate 30 (CHR ''-'')) (\<lambda>e. (Inl e, c))
    (case process_video_to_chromadb w c video_path db_path collection_name of
       (Inl e, c') \<Rightarrow> (Inl e, c')
     | (Inr result, c') \<Rightarrow>
         print_then w
           (if res_success result
            then check_mark @ '' Success: '' @ str_int (res_embeddings_count result)
                   @ '' embeddings saved''
            else cross_mark @ '' Failed: ''
                   @ (case res_error result of None \<Rightarrow> ''None'' | Some m \<Rightarrow> m))
           (\<lambda>e. (Inl e, c'))
           (case videos_loop w c' n (i + 1) video_paths db_path collection_name of
              (Inl e, c'') \<Rightarrow> (Inl e, c'')
            | (Inr results, c'') \<Rightarrow> (Inr (result # results), c''))))"

text \<open>
  \<open>process_multiple_videos\<close> returns \<open>results\<close> or raises, and prints the two numbers
  of its summary, \<open>successful\<close> and \<open>total_embeddings\<close>; the model returns the three, and
  the state of the store.
\<close>

record batch_report =
  rep_results :: "outcome list"
  rep_successful :: int
  rep_total_embeddings :: int

definition process_multiple_videos ::
  "('img, 'c) world \<Rightarrow> 'c \<Rightarrow> string list \<Rightarrow> string \<Rightarrow> string
     \<Rightarrow> (py_exception + batch_report) \<times> 'c" where
  "process_multiple_videos w c video_paths db_path collection_name =
     print_then w (''Processing '' @ str_int (int (length video_paths)) @ '' videos...'')
       (\<lambda>e. (Inl e, c))
    (print_then w (replicate 50 (CHR ''='')) (\<lambda>e. (Inl e, c))
    (case videos_loop w c (int (length video_paths)) 1 video_paths db_path collection_name of
       (Inl e, c') \<Rightarrow> (Inl e, c')
     | (Inr results, c') \<Rightarrow>
         let successful = sum_list (map (\<lambda>r. 1) (filter res_success results));
             total_embeddings = sum_list (map res_embeddings_count results);
             report = \<lparr>rep_results = results, rep_successful = successful,
                       rep_total_embeddings = total_embeddings\<rparr>
         in print_then w (line_feed @ replicate 50 (CHR ''='')) (\<lambda>e. (Inl e, c'))
           (print_then w (bar_chart @ '' SUMMARY:'') (\<lambda>e. (Inl e, c'))
           (print_then w
              (''   Videos processed: '' @ str_int successful @ ''/''
                 @ str_int (int (length video_paths)))
              (\<lambda>e. (Inl e, c'))
           (print_then w (''   Total embeddings: '' @ str_int total_embeddings)
              (\<lambda>e. (Inl e, c'))
           (if successful > 0
            then print_then w
                   (''   Collection total: ''
                      @ get_or_zero (res_collection_info (last results)) ''total_embeddings''
                      @ '' embeddings'')
                   (\<lambda>e. (Inl e, c'))
                   (Inr report, c')
            else (Inr report, c')))))))"

section \<open>text\_search.py\<close>








section \<open>Notions used in the statements\<close>

text \<open>Whether a frame number lies in the closed interval of a scene.\<close>

definition in_scene :: "int \<times> int \<Rightarrow> int \<Rightarrow> bool" where
  "in_scene scene x = (fst scene \<le> x \<and> x \<le> snd scene)"




section \<open>A concrete world\<close>

text \<open>
  A small world on which the functions can be run. A decoded frame is the pair of
  the video and the frame number; the collection is the list of its entries, and
  \<open>add\<close> skips an entry whose id is already there. The videos \<open>a.mp4\<close> and \<open>b.mp4\<close>
  have 90 frames and one scene that the detector finds from threshold 10 downwards;
  \<open>still.mp4\<close> has 90 frames and no detected scene; \<open>empty.mp4\<close> has no frame. The
  console prints every message.
\<close>

type_synonym demo_collection = "(string \<times> real list \<times> frame_metadata) list"

definition demo_world :: "(string \<times> int, demo_collection) world" where
  "demo_world =
     \<lparr>path_exists = (\<lambda>p. p = ''a.mp4'' \<or> p = ''b.mp4'' \<or> p = ''still.mp4'' \<or> p = ''empty.mp4''),
      makedirs = (\<lambda>d. None),
      cap_isOpened = (\<lambda>p. True),
      cap_frame_count = (\<lambda>p. if p = ''empty.mp4'' then 0 else 90),
      cap_read = (\<lambda>p n. if p \<noteq> ''empty.mp4'' \<and> 0 \<le> n \<and> n < 90 then Inr (Some (p, n))
                         else Inr None),
      sd_scene_list = (\<lambda>p t. if (p = ''a.mp4'' \<or> p = ''b.mp4'') \<and> t \<le> 10 then Inr [(0, 90)]
                              else Inr []),
      clip_from_pretrained = None,
      clip_image_features = (\<lambda>img. Inr [1, 0]),
      clip_text_features = (\<lambda>q. Inr [1, 0]),
      format_3f = (\<lambda>x. if x = 3 / 4 then ''0.750'' else ''0.000''),
      chroma_open = (\<lambda>c db_path name. Inr c),
      coll_count = (\<lambda>c. Inr (int (length c))),
      coll_add = (\<lambda>c ids embeddings metadatas.
                    (None, c @ filter (\<lambda>r. fst r \<notin> set (map fst c))
                                 (zip ids (zip embeddings metadatas)))),
      coll_query = (\<lambda>c q n. Inr \<lparr>qr_ids = [map fst (take (nat n) c)],
                                    qr_distances = [map (\<lambda>r. 1 / 4) (take (nat n) c)],
                                    qr_metadatas = [map (\<lambda>r. snd (snd r)) (take (nat n) c)]\<rparr>),
      coll_query_where = (\<lambda>c where_clause n.
                            Inr \<lparr>qr_ids = [[]], qr_distances = [[]], qr_metadatas = [[]]\<rparr>),
      coll_delete = (\<lambda>c ids. (None, filter (\<lambda>r. fst r \<notin> set ids) c)),
      console_print = (\<lambda>s. None)\<rparr>"


text \<open>
  The same world with a console that encodes ASCII only, as a terminal with a legacy
  code page refuses an emoji: \<open>print\<close> raises \<open>UnicodeEncodeError\<close> on a message with a
  byte beyond 127.
\<close>

definition ascii_console :: "string \<Rightarrow> py_exception option" where
  "ascii_console s =
     (if list_ex (\<lambda>ch. 128 \<le> (of_char ch :: nat)) s
      then Some (External ''UnicodeEncodeError'') else None)"

definition ascii_console_world :: "(string \<times> int, demo_collection) world" where
  "ascii_console_world = demo_world\<lparr>console_print := ascii_console\<rparr>"

text \<open>The same world with a console that fails on the success message only.\<close>

definition failing_success_line_world :: "(string \<times> int, demo_collection) world" where
  "failing_success_line_world =
     demo_world
       \<lparr>console_print :=
          (\<lambda>s. if take 3 s = check_mark then Some (External ''BlockingIOError'') else None)\<rparr>"

definition demo_manager :: "demo_collection manager" where
  "demo_manager = \<lparr>self_db_path = ''./chroma_db'', self_collection_name = ''video_embeddings'',
                    self_collection = []\<rparr>"

text \<open>The record that the demo world gives for a frame of the only scene of a video.\<close>

definition demo_record :: "string \<Rightarrow> int \<Rightarrow> int \<Rightarrow> string \<Rightarrow> frame_record" where
  "demo_record video_path frame_idx frame_sample fid =
     \<lparr>rec_id = fid, rec_embedding = [1, 0],
      rec_metadata = \<lparr>md_video_path = video_path, md_scene_idx = 0, md_frame_idx = frame_idx,
                      md_frame_sample = frame_sample, md_video_name = video_path\<rparr>\<rparr>"

text \<open>The three records of the video \<open>a.mp4\<close>.\<close>

definition demo_records_a :: "frame_record list" where
  "demo_records_a =
     [demo_record ''a.mp4'' 0 0 ''scene_0_frame_0_sample_0'',
      demo_record ''a.mp4'' 1 30 ''scene_0_frame_1_sample_30'',
      demo_record ''a.mp4'' 2 60 ''scene_0_frame_2_sample_60'']"



section \<open>The frame sampler\<close>

lemma py_round_div_nonneg:
  assumes "0 \<le> a" "0 < b"
  shows "0 \<le> py_round_div a b"
proof -
  have "0 \<le> a div b" using assms by (simp add: pos_imp_zdiv_nonneg_iff)
  then show ?thesis using assms by (simp add: py_round_div_def Let_def)
qed

lemma py_round_div_twice_le:
  assumes "0 \<le> a" "3 \<le> b"
  shows "2 * py_round_div a b \<le> a"
proof -
  define q where "q = a div b"
  define r where "r = a mod b"
  have a: "a = q * b + r" by (simp add: q_def r_def)
  have q0: "0 \<le> q" using assms by (simp add: q_def pos_imp_zdiv_nonneg_iff)
  have r0: "0 \<le> r" "r < b" using assms by (simp_all add: r_def)
  have "q * 3 \<le> q * b" using q0 assms(2) by (rule mult_left_mono[OF _ _, rotated])
  then have qb: "3 * q \<le> q * b" by simp
  have sg: "sgn b = 1" "\<bar>b\<bar> = b" using assms by simp_all
  have eq: "py_round_div a b =
      (if 2 * r < b then q else if b < 2 * r then q + 1 else if even q then q else q + 1)"
    by (simp add: py_round_div_def Let_def sg q_def r_def)
  show ?thesis
  proof (cases "2 * r < b")
    case True
    then show ?thesis using eq a q0 r0 qb by simp
  next
    case False
    then have "2 \<le> r" using assms(2) by simp
    then have "2 * (q + 1) \<le> a" using a qb q0 by simp
    then show ?thesis using eq q0 a qb r0 by (simp split: if_splits)
  qed
qed

text \<open>What the sampler returns for one scene and for a list of scenes.\<close>

lemma local_samples_eq:
  "no_of_samples \<noteq> 0 \<Longrightarrow>
   local_samples scene no_of_samples =
     Inr [fst scene,
          py_round_div \<bar>fst scene - snd scene\<bar> no_of_samples + fst scene,
          py_round_div \<bar>fst scene - snd scene\<bar> no_of_samples * 2 + fst scene]"
  by (simp add: local_samples_def Let_def upt_rec)

lemma scenes_loop_eq:
  "no_of_samples \<noteq> 0 \<Longrightarrow>
   scenes_loop scenes no_of_samples =
     Inr (map (\<lambda>scene. [fst scene,
          py_round_div \<bar>fst scene - snd scene\<bar> no_of_samples + fst scene,
          py_round_div \<bar>fst scene - snd scene\<bar> no_of_samples * 2 + fst scene]) scenes)"
  by (induction scenes) (simp_all add: local_samples_eq)

lemma demo_detect_a:
  "detect_scenes demo_world ''a.mp4'' 10 = Inr [(0, 90)]"
  by (simp add: detect_scenes_def demo_world_def)

text \<open>
  C1. The claim: for every sample count \<open>count \<ge> 1\<close> the sampler returns exactly \<open>count\<close>
  frame numbers per scene, the k-th being \<open>start + round(scene_length / count) * k\<close>.
  The code evaluated on a video whose one scene runs from frame 0 to frame 90, with
  \<open>no_of_samples = 2\<close>: it returns three frame numbers, not two, since the list is
  built over \<open>range(3)\<close> while the stride is computed from \<open>no_of_samples\<close>.
\<close>

theorem sampler_returns_three_for_count_two:
  "get_scene_frame_samples demo_world ''a.mp4'' 2 10 = Inr [[0, 45, 90]]"
  by (simp add: get_scene_frame_samples_def demo_detect_a local_samples_def
      py_round_div_def Let_def upt_rec)

text \<open>
  C5. The claim: every frame number sampled from a scene of positive length lies in
  the closed interval of the scene. The code evaluated on a video whose one scene runs
  from frame 0 to frame 90, with \<open>no_of_samples = 1\<close>: it samples the frames 0, 90 and
  180, and 180 is beyond the end of the scene. The list is built over \<open>range(3)\<close>
  whatever the count is; one sample, the frame 0, was asked for.
\<close>

theorem sample_beyond_scene_end:
  "get_scene_frame_samples demo_world ''a.mp4'' 1 10 = Inr [[0, 90, 180]]
   \<and> \<not> in_scene (0, 90) 180"
  by (simp add: get_scene_frame_samples_def demo_detect_a local_samples_def
      py_round_div_def Let_def upt_rec in_scene_def)

text \<open>
  Where the count is the 3 of \<open>range(3)\<close>, as in every call of the pipeline, or more,
  the samples of a scene with \<open>start \<le> end\<close> stay in the scene.
\<close>

lemma samples_within_scene:
  assumes "detect_scenes w video_path threshold = Inr scenes"
    and "3 \<le> no_of_samples"
    and "get_scene_frame_samples w video_path no_of_samples threshold = Inr samples"
    and "i < length scenes"
    and "fst (scenes ! i) \<le> snd (scenes ! i)"
    and "x \<in> set (samples ! i)"
  shows "in_scene (scenes ! i) x"
proof -
  define len where "len = \<bar>fst (scenes ! i) - snd (scenes ! i)\<bar>"
  define every_n where "every_n = py_round_div len no_of_samples"
  have len: "0 \<le> len" "fst (scenes ! i) + len = snd (scenes ! i)"
    using assms(5) by (simp_all add: len_def)
  have lo: "0 \<le> every_n"
    unfolding every_n_def using len(1) assms(2) by (intro py_round_div_nonneg) simp_all
  have hi: "2 * every_n \<le> len"
    unfolding every_n_def using len(1) assms(2) by (rule py_round_div_twice_le)
  have "samples =
      map (\<lambda>scene. [fst scene,
          py_round_div \<bar>fst scene - snd scene\<bar> no_of_samples + fst scene,
          py_round_div \<bar>fst scene - snd scene\<bar> no_of_samples * 2 + fst scene]) scenes"
    using assms(1,2,3) by (simp add: get_scene_frame_samples_def scenes_loop_eq)
  then have "samples ! i =
      [fst (scenes ! i), every_n + fst (scenes ! i), every_n * 2 + fst (scenes ! i)]"
    using assms(4) by (simp add: every_n_def len_def)
  then have "x = fst (scenes ! i) \<or> x = every_n + fst (scenes ! i)
      \<or> x = every_n * 2 + fst (scenes ! i)"
    using assms(6) by simp
  then show ?thesis
    using lo hi len by (auto simp: in_scene_def)
qed

lemma samples_within_scene_example:
  "get_scene_frame_samples demo_world ''a.mp4'' 3 10 = Inr [[0, 30, 60]]
   \<and> in_scene (0, 90) 60"
proof -
  have run: "get_scene_frame_samples demo_world ''a.mp4'' 3 10 = Inr [[0, 30, 60]]"
    by (simp add: get_scene_frame_samples_def demo_detect_a local_samples_def
        py_round_div_def Let_def upt_rec)
  have "in_scene ([(0, 90)] ! 0) 60"
    by (rule samples_within_scene [OF demo_detect_a _ run]) simp_all
  then show ?thesis using run by simp
qed

section \<open>Segmentation with fallback\<close>

lemma get_samples_3:
  "detect_scenes w p t = Inr scenes \<Longrightarrow>
   get_scene_frame_samples w p 3 t = scenes_loop scenes 3"
  by (simp add: get_scene_frame_samples_def)

lemma threshold_loop_first:
  assumes "\<forall>u\<in>set pre. detect_scenes w p u = Inr []"
    and "detect_scenes w p t = Inr scenes" and "scenes \<noteq> []"
  shows "threshold_loop w p (pre @ t # post) = scenes_loop scenes 3"
  using assms
proof (induction pre)
  case Nil
  then show ?case by (auto simp: get_samples_3 scenes_loop_eq)
next
  case (Cons u pre)
  then show ?case by (simp add: get_samples_3)
qed

lemma threshold_loop_none:
  "\<forall>u\<in>set ts. detect_scenes w p u = Inr [] \<Longrightarrow> threshold_loop w p ts = Inr []"
  by (induction ts) (simp_all add: get_samples_3)

lemma threshold_loop_total:
  "\<forall>u\<in>set ts. \<not> isl (detect_scenes w p u) \<Longrightarrow> \<exists>sss. threshold_loop w p ts = Inr sss"
proof (induction ts)
  case Nil
  then show ?case by simp
next
  case (Cons u ts)
  then obtain scenes where "detect_scenes w p u = Inr scenes"
    by (cases "detect_scenes w p u") auto
  then show ?case using Cons by (simp add: get_samples_3 scenes_loop_eq)
qed

lemma fallback_samples_eq:
  "fallback_samples n = [0, n div 3, (n * 2) div 3]"
  by (simp add: fallback_samples_def upt_rec)

lemma fallback_in_video:
  "0 < n \<Longrightarrow> x \<in> set (fallback_samples n) \<Longrightarrow> 0 \<le> x \<and> x < n"
  by (auto simp: fallback_samples_eq pos_imp_zdiv_nonneg_iff)

text \<open>
  C2. Segmentation tries the thresholds in the given order and stops at the first one
  that finds a scene: when the detector finds nothing at the thresholds of \<open>pre\<close> and
  the scenes \<open>scenes \<noteq> []\<close> at \<open>t\<close>, the result is the samples of \<open>scenes\<close>, one list per
  scene, whatever the detector would do at the later thresholds \<open>post\<close>; this holds for
  any list of thresholds, and for the list 15, 10, 5, 2 of the pipeline. When the
  detector finds nothing at any of 15, 10, 5, 2 and the video has at least one frame,
  the result is exactly one scene, sampled at 0, a third and two thirds of the frame
  count, all within the video. So a video with at least one frame on which the
  detector does not raise yields at least one scene.
\<close>

theorem segmentation_first_hit_or_whole_video:
  "(thresholds = pre @ t # post \<and> (\<forall>u\<in>set pre. detect_scenes w p u = Inr [])
      \<and> detect_scenes w p t = Inr scenes \<and> scenes \<noteq> []
    \<longrightarrow> (\<exists>sss. threshold_loop w p thresholds = Inr sss \<and> scenes_loop scenes 3 = Inr sss
           \<and> length sss = length scenes))
   \<and> ([15, 10, 5, 2] = pre @ t # post \<and> (\<forall>u\<in>set pre. detect_scenes w p u = Inr [])
      \<and> detect_scenes w p t = Inr scenes \<and> scenes \<noteq> []
    \<longrightarrow> (\<exists>sss. select_scenes_frame_samples w p = Inr (Some sss)
           \<and> scenes_loop scenes 3 = Inr sss \<and> length sss = length scenes))
   \<and> ((\<forall>u\<in>set [15, 10, 5, 2]. detect_scenes w p u = Inr []) \<and> 0 < cap_frame_count w p
    \<longrightarrow> select_scenes_frame_samples w p
          = Inr (Some [[0, cap_frame_count w p div 3, (cap_frame_count w p * 2) div 3]])
        \<and> (\<forall>x\<in>set (fallback_samples (cap_frame_count w p)).
              0 \<le> x \<and> x < cap_frame_count w p))
   \<and> ((\<forall>u\<in>set [15, 10, 5, 2]. \<not> isl (detect_scenes w p u)) \<and> 0 < cap_frame_count w p
    \<longrightarrow> (\<exists>sss. select_scenes_frame_samples w p = Inr (Some sss) \<and> sss \<noteq> []))"
proof (intro conjI impI)
  assume h: "thresholds = pre @ t # post \<and> (\<forall>u\<in>set pre. detect_scenes w p u = Inr [])
      \<and> detect_scenes w p t = Inr scenes \<and> scenes \<noteq> []"
  then have "threshold_loop w p thresholds = scenes_loop scenes 3"
    by (simp add: threshold_loop_first)
  then show "\<exists>sss. threshold_loop w p thresholds = Inr sss \<and> scenes_loop scenes 3 = Inr sss
           \<and> length sss = length scenes"
    by (simp add: scenes_loop_eq)
next
  assume h: "[15, 10, 5, 2] = pre @ t # post \<and> (\<forall>u\<in>set pre. detect_scenes w p u = Inr [])
      \<and> detect_scenes w p t = Inr scenes \<and> scenes \<noteq> []"
  then have "threshold_loop w p (pre @ t # post) = scenes_loop scenes 3"
    by (simp add: threshold_loop_first)
  then have tl: "threshold_loop w p [15, 10, 5, 2] = scenes_loop scenes 3"
    using h by simp
  show "\<exists>sss. select_scenes_frame_samples w p = Inr (Some sss)
           \<and> scenes_loop scenes 3 = Inr sss \<and> length sss = length scenes"
    unfolding select_scenes_frame_samples_def tl using h by (simp add: scenes_loop_eq)
next
  assume h: "(\<forall>u\<in>set [15, 10, 5, 2]. detect_scenes w p u = Inr []) \<and> 0 < cap_frame_count w p"
  then have tl: "threshold_loop w p [15, 10, 5, 2] = Inr []"
    by (intro threshold_loop_none) simp
  show "select_scenes_frame_samples w p
          = Inr (Some [[0, cap_frame_count w p div 3, (cap_frame_count w p * 2) div 3]])"
    unfolding select_scenes_frame_samples_def tl using h
    by (simp add: fallback_samples_eq Let_def)
  show "\<forall>x\<in>set (fallback_samples (cap_frame_count w p)). 0 \<le> x \<and> x < cap_frame_count w p"
    using h fallback_in_video by blast
next
  assume h: "(\<forall>u\<in>set [15, 10, 5, 2]. \<not> isl (detect_scenes w p u)) \<and> 0 < cap_frame_count w p"
  then obtain sss where tl: "threshold_loop w p [15, 10, 5, 2] = Inr sss"
    using threshold_loop_total by blast
  show "\<exists>sss. select_scenes_frame_samples w p = Inr (Some sss) \<and> sss \<noteq> []"
    unfolding select_scenes_frame_samples_def tl using h by (simp add: Let_def)
qed

theorem segmentation_first_hit_or_whole_video_witness:
  "select_scenes_frame_samples demo_world ''a.mp4'' = Inr (Some [[0, 30, 60]])
   \<and> select_scenes_frame_samples demo_world ''still.mp4'' = Inr (Some [[0, 30, 60]])"
proof -
  have d15: "\<forall>u\<in>set [15]. detect_scenes demo_world ''a.mp4'' u = Inr []"
    by (simp add: detect_scenes_def demo_world_def)
  have split: "[15, 10, 5, 2] = [15] @ 10 # [5, 2 :: real]"
    by simp
  have samples: "scenes_loop [(0, 90)] 3 = Inr [[0, 30, 60]]"
    by (simp add: local_samples_def py_round_div_def Let_def upt_rec)
  have "\<exists>sss. select_scenes_frame_samples demo_world ''a.mp4'' = Inr (Some sss)
           \<and> scenes_loop [(0, 90)] 3 = Inr sss \<and> length sss = length [(0 :: int, 90 :: int)]"
    using segmentation_first_hit_or_whole_video
      [where w = demo_world and p = "''a.mp4''" and pre = "[15]" and t = 10
         and post = "[5, 2]" and scenes = "[(0, 90)]"]
      d15 split demo_detect_a
    by blast
  then have a: "select_scenes_frame_samples demo_world ''a.mp4'' = Inr (Some [[0, 30, 60]])"
    using samples by auto
  have none: "\<forall>u\<in>set [15, 10, 5, 2]. detect_scenes demo_world ''still.mp4'' u = Inr []"
    by (simp add: detect_scenes_def demo_world_def)
  have frames: "cap_frame_count demo_world ''still.mp4'' = 90"
    by (simp add: demo_world_def)
  have "select_scenes_frame_samples demo_world ''still.mp4''
          = Inr (Some [[0, cap_frame_count demo_world ''still.mp4'' div 3,
                        (cap_frame_count demo_world ''still.mp4'' * 2) div 3]])"
    using segmentation_first_hit_or_whole_video
      [where w = demo_world and p = "''still.mp4''"] none frames
    by simp
  then have "select_scenes_frame_samples demo_world ''still.mp4'' = Inr (Some [[0, 30, 60]])"
    by (simp add: frames)
  with a show ?thesis by simp
qed

section \<open>Frame identity\<close>

lemma samples_loop_ids:
  "samples_loop w p s i xs = Inr rs \<Longrightarrow> r \<in> set rs \<Longrightarrow>
   rec_id r = frame_id (md_scene_idx (rec_metadata r)) (md_frame_idx (rec_metadata r))
                (md_frame_sample (rec_metadata r))"
proof (induction xs arbitrary: i rs)
  case Nil
  then show ?case by simp
next
  case (Cons x xs)
  then show ?case
    by (auto split: sum.splits option.splits)
qed

lemma embed_scenes_loop_ids:
  "embed_scenes_loop w p s sss = Inr rs \<Longrightarrow> r \<in> set rs \<Longrightarrow>
   rec_id r = frame_id (md_scene_idx (rec_metadata r)) (md_frame_idx (rec_metadata r))
                (md_frame_sample (rec_metadata r))"
proof (induction sss arbitrary: s rs)
  case Nil
  then show ?case by simp
next
  case (Cons xs sss)
  then show ?case
    by (auto split: sum.splits dest: samples_loop_ids)
qed

lemma process_video_embeddings_ids:
  "process_video_embeddings w p = Inr rs \<Longrightarrow> r \<in> set rs \<Longrightarrow>
   rec_id r = frame_id (md_scene_idx (rec_metadata r)) (md_frame_idx (rec_metadata r))
                (md_frame_sample (rec_metadata r))"
  by (auto simp: process_video_embeddings_def split: if_splits sum.splits option.splits
      dest: embed_scenes_loop_ids)

text \<open>No failure starts in the repository's own code: the loops succeed when the library calls do.\<close>

lemma samples_loop_total:
  "\<forall>n. \<not> isl (cap_read w p n) \<Longrightarrow> \<forall>img. \<not> isl (get_clip_embeddings w img) \<Longrightarrow>
   \<not> isl (samples_loop w p s i xs)"
proof (induction xs arbitrary: i)
  case Nil
  then show ?case by simp
next
  case (Cons x xs)
  show ?case
  proof (cases "cap_read w p x")
    case (Inl e)
    then show ?thesis using Cons.prems(1) by (metis isl_def)
  next
    case (Inr fr)
    show ?thesis
    proof (cases fr)
      case None
      then show ?thesis using Inr Cons by simp
    next
      case (Some frame)
      obtain emb where "get_clip_embeddings w frame = Inr emb"
        using Cons.prems(2) by (cases "get_clip_embeddings w frame") (auto simp: isl_def)
      moreover obtain rest where "samples_loop w p s (i + 1) xs = Inr rest"
        using Cons.IH[OF Cons.prems, of "i + 1"]
        by (cases "samples_loop w p s (i + 1) xs") (auto simp: isl_def)
      ultimately show ?thesis using Inr Some by simp
    qed
  qed
qed

lemma embed_scenes_loop_total:
  "\<forall>n. \<not> isl (cap_read w p n) \<Longrightarrow> \<forall>img. \<not> isl (get_clip_embeddings w img) \<Longrightarrow>
   \<not> isl (embed_scenes_loop w p s sss)"
proof (induction sss arbitrary: s)
  case Nil
  then show ?case by simp
next
  case (Cons xs sss)
  obtain here where "samples_loop w p s 0 xs = Inr here"
    using samples_loop_total[OF Cons.prems, of s 0 xs]
    by (cases "samples_loop w p s 0 xs") (auto simp: isl_def)
  moreover obtain rest where "embed_scenes_loop w p (s + 1) sss = Inr rest"
    using Cons.IH[OF Cons.prems, of "s + 1"]
    by (cases "embed_scenes_loop w p (s + 1) sss") (auto simp: isl_def)
  ultimately show ?case by simp
qed

lemma select_total:
  assumes "\<forall>t. \<not> isl (detect_scenes w p t)"
  shows "\<not> isl (select_scenes_frame_samples w p)"
proof -
  obtain sss where tl: "threshold_loop w p [15, 10, 5, 2] = Inr sss"
    using threshold_loop_total assms by blast
  show ?thesis
    unfolding select_scenes_frame_samples_def tl by (simp add: Let_def)
qed

lemma process_video_embeddings_total:
  assumes "\<forall>t. \<not> isl (detect_scenes w p t)" "\<forall>n. \<not> isl (cap_read w p n)"
    "\<forall>img. \<not> isl (get_clip_embeddings w img)"
  shows "\<not> isl (process_video_embeddings w p)"
proof (cases "select_scenes_frame_samples w p")
  case (Inl e)
  then show ?thesis using select_total[OF assms(1)] by simp
next
  case (Inr x)
  then show ?thesis
    using embed_scenes_loop_total[OF assms(2,3)]
    by (simp add: process_video_embeddings_def split: option.splits)
qed

text \<open>The records of the demo videos \<open>a.mp4\<close> and \<open>b.mp4\<close>.\<close>

lemma demo_select:
  "p = ''a.mp4'' \<or> p = ''b.mp4'' \<Longrightarrow>
   select_scenes_frame_samples demo_world p = Inr (Some [[0, 30, 60]])"
  by (auto simp add: select_scenes_frame_samples_def get_scene_frame_samples_def
      detect_scenes_def demo_world_def local_samples_def py_round_div_def Let_def upt_rec)

lemma demo_ids:
  "frame_id 0 0 0 = ''scene_0_frame_0_sample_0''"
  "frame_id 0 1 30 = ''scene_0_frame_1_sample_30''"
  "frame_id 0 2 60 = ''scene_0_frame_2_sample_60''"
  by (simp_all add: frame_id_def str_int_def str_nat.simps digit_char_def)

lemma demo_embeddings:
  "p = ''a.mp4'' \<or> p = ''b.mp4'' \<Longrightarrow>
   process_video_embeddings demo_world p =
     Inr [demo_record p 0 0 ''scene_0_frame_0_sample_0'',
          demo_record p 1 30 ''scene_0_frame_1_sample_30'',
          demo_record p 2 60 ''scene_0_frame_2_sample_60'']"
  unfolding process_video_embeddings_def
  apply (simp add: demo_select)
  apply (auto simp add: demo_world_def get_clip_embeddings_def demo_ids demo_record_def
      basename_def)
  done

text \<open>
  C4. The identity builder is the expression that \<open>process_video_embeddings\<close> evaluates
  for each frame it embeds. Every record the function returns has the id
  \<open>scene_{scene_idx}_frame_{frame_idx}_sample_{frame_sample}\<close> of the three integers in
  its own metadata, so two records with the same three integers have the same id, in
  whatever run, world or video they were produced. Building the id adds no failure:
  when the detector, the frame reader and the encoder do not raise,
  \<open>process_video_embeddings\<close> returns.
\<close>

theorem frame_id_deterministic_total:
  "(process_video_embeddings w video_path = Inr embeddings_data \<and> r \<in> set embeddings_data
    \<longrightarrow> rec_id r = ''scene_'' @ str_int (md_scene_idx (rec_metadata r))
                    @ ''_frame_'' @ str_int (md_frame_idx (rec_metadata r))
                    @ ''_sample_'' @ str_int (md_frame_sample (rec_metadata r)))
   \<and> (process_video_embeddings w video_path = Inr embeddings_data \<and> r \<in> set embeddings_data
      \<and> process_video_embeddings w' video_path' = Inr embeddings_data'
      \<and> r' \<in> set embeddings_data'
      \<and> md_scene_idx (rec_metadata r) = md_scene_idx (rec_metadata r')
      \<and> md_frame_idx (rec_metadata r) = md_frame_idx (rec_metadata r')
      \<and> md_frame_sample (rec_metadata r) = md_frame_sample (rec_metadata r')
    \<longrightarrow> rec_id r = rec_id r')
   \<and> ((\<forall>t. \<not> isl (detect_scenes w video_path t)) \<and> (\<forall>n. \<not> isl (cap_read w video_path n))
      \<and> (\<forall>img. \<not> isl (get_clip_embeddings w img))
    \<longrightarrow> \<not> isl (process_video_embeddings w video_path))"
proof (intro conjI impI)
  assume "process_video_embeddings w video_path = Inr embeddings_data \<and> r \<in> set embeddings_data"
  then show "rec_id r = ''scene_'' @ str_int (md_scene_idx (rec_metadata r))
                    @ ''_frame_'' @ str_int (md_frame_idx (rec_metadata r))
                    @ ''_sample_'' @ str_int (md_frame_sample (rec_metadata r))"
    using process_video_embeddings_ids[of w video_path embeddings_data r]
    by (simp add: frame_id_def)
next
  assume h: "process_video_embeddings w video_path = Inr embeddings_data
      \<and> r \<in> set embeddings_data
      \<and> process_video_embeddings w' video_path' = Inr embeddings_data'
      \<and> r' \<in> set embeddings_data'
      \<and> md_scene_idx (rec_metadata r) = md_scene_idx (rec_metadata r')
      \<and> md_frame_idx (rec_metadata r) = md_frame_idx (rec_metadata r')
      \<and> md_frame_sample (rec_metadata r) = md_frame_sample (rec_metadata r')"
  then show "rec_id r = rec_id r'"
    using process_video_embeddings_ids[of w video_path embeddings_data r]
      process_video_embeddings_ids[of w' video_path' embeddings_data' r']
    by simp
next
  assume "(\<forall>t. \<not> isl (detect_scenes w video_path t)) \<and> (\<forall>n. \<not> isl (cap_read w video_path n))
      \<and> (\<forall>img. \<not> isl (get_clip_embeddings w img))"
  then show "\<not> isl (process_video_embeddings w video_path)"
    using process_video_embeddings_total by blast
qed

theorem frame_id_deterministic_total_witness:
  "process_video_embeddings demo_world ''a.mp4''
     = Inr [demo_record ''a.mp4'' 0 0 ''scene_0_frame_0_sample_0'',
            demo_record ''a.mp4'' 1 30 ''scene_0_frame_1_sample_30'',
            demo_record ''a.mp4'' 2 60 ''scene_0_frame_2_sample_60'']
   \<and> rec_id (demo_record ''a.mp4'' 1 30 ''scene_0_frame_1_sample_30'')
       = ''scene_'' @ str_int 0 @ ''_frame_'' @ str_int 1 @ ''_sample_'' @ str_int 30
   \<and> \<not> isl (process_video_embeddings demo_world ''a.mp4'')"
proof -
  let ?r = "demo_record ''a.mp4'' 1 30 ''scene_0_frame_1_sample_30''"
  have run: "process_video_embeddings demo_world ''a.mp4''
     = Inr [demo_record ''a.mp4'' 0 0 ''scene_0_frame_0_sample_0'', ?r,
            demo_record ''a.mp4'' 2 60 ''scene_0_frame_2_sample_60'']"
    by (rule demo_embeddings) simp
  have calls: "(\<forall>t. \<not> isl (detect_scenes demo_world ''a.mp4'' t))
      \<and> (\<forall>n. \<not> isl (cap_read demo_world ''a.mp4'' n))
      \<and> (\<forall>img. \<not> isl (get_clip_embeddings demo_world img))"
    by (simp add: detect_scenes_def get_clip_embeddings_def demo_world_def)
  let ?ds = "[demo_record ''a.mp4'' 0 0 ''scene_0_frame_0_sample_0'', ?r,
            demo_record ''a.mp4'' 2 60 ''scene_0_frame_2_sample_60'']"
  note inst = frame_id_deterministic_total
      [where w = demo_world and video_path = "''a.mp4''" and r = ?r
         and embeddings_data = ?ds and w' = demo_world and video_path' = "''a.mp4''"
         and r' = ?r and embeddings_data' = ?ds]
  have "rec_id ?r = ''scene_'' @ str_int (md_scene_idx (rec_metadata ?r))
                    @ ''_frame_'' @ str_int (md_frame_idx (rec_metadata ?r))
                    @ ''_sample_'' @ str_int (md_frame_sample (rec_metadata ?r))"
    using inst run by simp
  then have id: "rec_id ?r = ''scene_'' @ str_int 0 @ ''_frame_'' @ str_int 1
                    @ ''_sample_'' @ str_int 30"
    by (simp add: demo_record_def)
  have "\<not> isl (process_video_embeddings demo_world ''a.mp4'')"
    using inst calls by blast
  with run id show ?thesis by simp
qed

text \<open>
  C3. The claim: two distinct records in one collection have distinct ids, also when
  they come from two different videos. The code evaluated on the videos \<open>a.mp4\<close> and
  \<open>b.mp4\<close>: the first record of each is a frame of a different video, and the two have
  the same id \<open>scene_0_frame_0_sample_0\<close>, since the id does not depend on the video.
\<close>

theorem ids_collide_across_videos:
  "(case (process_video_embeddings demo_world ''a.mp4'',
          process_video_embeddings demo_world ''b.mp4'') of
      (Inr (ra # _), Inr (rb # _)) \<Rightarrow>
        ra \<noteq> rb \<and> md_video_path (rec_metadata ra) \<noteq> md_video_path (rec_metadata rb)
        \<and> rec_id ra = rec_id rb \<and> rec_id ra = ''scene_0_frame_0_sample_0''
    | _ \<Rightarrow> False)"
  by (simp add: demo_embeddings demo_record_def)

section \<open>The store adapter\<close>






section \<open>The batch orchestrator\<close>

text \<open>The indexing of \<open>a.mp4\<close> in the demo world, whatever its console is.\<close>

lemma other_console_embeddings:
  "process_video_embeddings (demo_world\<lparr>console_print := f\<rparr>) ''a.mp4'' = Inr demo_records_a"
  by (simp add: process_video_embeddings_def select_scenes_frame_samples_def
      get_scene_frame_samples_def detect_scenes_def demo_world_def
      local_samples_def py_round_div_def Let_def upt_rec get_clip_embeddings_def demo_ids
      demo_record_def basename_def demo_records_a_def)

lemma other_console_open:
  "ChromaDBManager (demo_world\<lparr>console_print := f\<rparr>) [] ''./chroma_db'' ''video_embeddings''
     = Inr demo_manager"
  by (simp add: ChromaDBManager_def demo_manager_def demo_world_def)

lemma other_console_save:
  "fst (save_embeddings (demo_world\<lparr>console_print := f\<rparr>) demo_manager demo_records_a)"
  "get_collection_info (demo_world\<lparr>console_print := f\<rparr>)
     (snd (save_embeddings (demo_world\<lparr>console_print := f\<rparr>) demo_manager demo_records_a))
   = [(''collection_name'', PyStr ''video_embeddings''),
      (''total_embeddings'', PyInt 3),
      (''db_path'', PyStr ''./chroma_db'')]"
  by (simp_all add: save_embeddings_def get_collection_info_def demo_manager_def
      demo_world_def demo_record_def Let_def demo_records_a_def)

lemma other_console_exists:
  "path_exists demo_world ''a.mp4''"
  "\<not> path_exists demo_world ''missing.mp4''"
  by (simp_all add: demo_world_def)

lemma other_console_print:
  "console_print (demo_world\<lparr>console_print := f\<rparr>) s = f s"
  by simp

lemma length_a: "length demo_records_a = 3" "demo_records_a \<noteq> []"
  by (simp_all add: demo_records_a_def)

lemma str3: "str_int 3 = ''3''" "str_int 1 = ''1''" "str_int 2 = ''2''"
  by (simp_all add: str_int_def str_nat.simps digit_char_def)

text \<open>
  C10. The claim: \<open>process_video_to_chromadb\<close> never raises, and in the dictionary it
  returns \<open>success\<close> holds exactly when \<open>error\<close> is \<open>None\<close>. The code evaluated on the video
  \<open>a.mp4\<close>, whose three embeddings are saved. On a console that cannot encode an emoji
  the success message raises inside the \<open>try\<close> block, after \<open>result.update\<close>; the
  handler stores the error and prints its own emoji, which raises outside any \<open>try\<close>:
  the function raises. On a console that fails on the success message only, the
  handler returns: \<open>success\<close> is true and \<open>error\<close> is set.
\<close>

theorem outcome_lost_when_print_raises:
  "fst (process_video_to_chromadb ascii_console_world [] ''a.mp4'' ''./chroma_db''
          ''video_embeddings'') = Inl (External ''UnicodeEncodeError'')
   \<and> (case fst (process_video_to_chromadb failing_success_line_world [] ''a.mp4''
                 ''./chroma_db'' ''video_embeddings'') of
        Inl e \<Rightarrow> False
      | Inr result \<Rightarrow>
          res_success result \<and> res_error result = Some ''Unexpected error: BlockingIOError'')"
proof
  show "fst (process_video_to_chromadb ascii_console_world [] ''a.mp4'' ''./chroma_db''
          ''video_embeddings'') = Inl (External ''UnicodeEncodeError'')"
    unfolding ascii_console_world_def process_video_to_chromadb_def
    by (simp add: other_console_exists other_console_open other_console_embeddings
        other_console_save length_a str3 print_then_def except_handler_def
        ascii_console_def check_mark_def cross_mark_def bar_chart_def basename_def
        case_prod_beta Let_def)
  show "case fst (process_video_to_chromadb failing_success_line_world [] ''a.mp4''
                 ''./chroma_db'' ''video_embeddings'') of
        Inl e \<Rightarrow> False
      | Inr result \<Rightarrow>
          res_success result \<and> res_error result = Some ''Unexpected error: BlockingIOError''"
    unfolding failing_success_line_world_def process_video_to_chromadb_def
    by (simp add: other_console_exists other_console_open other_console_embeddings
        other_console_save length_a str3 print_then_def except_handler_def
        check_mark_def cross_mark_def bar_chart_def basename_def
        case_prod_beta Let_def)
qed

text \<open>
  C8. The claim: a failure of one video gives an outcome with \<open>success = False\<close> and
  the batch goes on to the remaining videos. The code evaluated on the paths
  \<open>missing.mp4\<close> and \<open>a.mp4\<close>, on a console that cannot encode an emoji: the first video
  fails (no such file), the message that reports the failure starts with an emoji and
  is printed outside any \<open>try\<close> block, so \<open>process_multiple_videos\<close> raises before it
  reaches \<open>a.mp4\<close> and returns no outcome.
\<close>

theorem batch_aborted_by_failure_report:
  "fst (process_multiple_videos ascii_console_world [] [''missing.mp4'', ''a.mp4'']
          ''./chroma_db'' ''video_embeddings'') = Inl (External ''UnicodeEncodeError'')"
  unfolding ascii_console_world_def process_multiple_videos_def
  by (simp add: process_video_to_chromadb_def other_console_exists str3 print_then_def
      ascii_console_def cross_mark_def line_feed_def basename_def
      case_prod_beta Let_def)

text \<open>
  On a console that prints every message the function returns, and its outcome has
  the fields the two claims describe; the batch then returns one outcome per path, in
  the order of the paths, and the total of its summary is the sum of their counts.
\<close>

lemma quiet_console_outcome:
  assumes "\<forall>s. console_print w s = None"
  shows "\<exists>result. fst (process_video_to_chromadb w c video_path db_path collection_name)
                    = Inr result
           \<and> res_video_path result = video_path
           \<and> (res_success result \<longleftrightarrow> res_error result = None)
           \<and> (\<not> res_success result \<longrightarrow> res_embeddings_count result = 0)
           \<and> (res_success result \<longrightarrow> 0 < res_embeddings_count result)"
  using assms
  by (auto simp: process_video_to_chromadb_def print_then_def except_handler_def Let_def
      split: sum.splits prod.splits option.splits if_splits)


lemma quiet_console_loop:
  assumes "\<forall>s. console_print w s = None"
  shows "\<exists>results. fst (videos_loop w c n i video_paths db_path collection_name) = Inr results
           \<and> map res_video_path results = video_paths
           \<and> (\<forall>r\<in>set results. (res_success r \<longleftrightarrow> res_error r = None)
                 \<and> (\<not> res_success r \<longrightarrow> res_embeddings_count r = 0))"
proof (induction video_paths arbitrary: c i)
  case Nil
  then show ?case by simp
next
  case (Cons p ps)
  from quiet_console_outcome [OF assms, of c p db_path collection_name]
  obtain result where r:
    "fst (process_video_to_chromadb w c p db_path collection_name) = Inr result
     \<and> res_video_path result = p
     \<and> (res_success result \<longleftrightarrow> res_error result = None)
     \<and> (\<not> res_success result \<longrightarrow> res_embeddings_count result = 0)
     \<and> (res_success result \<longrightarrow> 0 < res_embeddings_count result)" ..
  define c' where "c' = snd (process_video_to_chromadb w c p db_path collection_name)"
  have pv: "process_video_to_chromadb w c p db_path collection_name = (Inr result, c')"
    using r by (simp add: c'_def prod_eq_iff)
  from Cons.IH [of c' "i + 1"]
  obtain rest where rest:
    "fst (videos_loop w c' n (i + 1) ps db_path collection_name) = Inr rest
     \<and> map res_video_path rest = ps
     \<and> (\<forall>r\<in>set rest. (res_success r \<longleftrightarrow> res_error r = None)
                 \<and> (\<not> res_success r \<longrightarrow> res_embeddings_count r = 0))" ..
  have "fst (videos_loop w c n i (p # ps) db_path collection_name) = Inr (result # rest)"
    using rest by (simp add: print_then_def assms pv case_prod_beta split: sum.splits)
  then show ?case using r rest by simp
qed

lemma quiet_console_batch:
  assumes "\<forall>s. console_print w s = None"
  shows "\<exists>report. fst (process_multiple_videos w c video_paths db_path collection_name)
                    = Inr report
           \<and> map res_video_path (rep_results report) = video_paths
           \<and> (\<forall>r\<in>set (rep_results report). (res_success r \<longleftrightarrow> res_error r = None)
                 \<and> (\<not> res_success r \<longrightarrow> res_embeddings_count r = 0))
           \<and> rep_total_embeddings report
                = sum_list (map res_embeddings_count (rep_results report))"
proof -
  from quiet_console_loop [OF assms, of c "int (length video_paths)" 1 video_paths db_path
      collection_name]
  obtain results where rs:
    "fst (videos_loop w c (int (length video_paths)) 1 video_paths db_path collection_name)
       = Inr results
     \<and> map res_video_path results = video_paths
     \<and> (\<forall>r\<in>set results. (res_success r \<longleftrightarrow> res_error r = None)
                 \<and> (\<not> res_success r \<longrightarrow> res_embeddings_count r = 0))" ..
  have "fst (process_multiple_videos w c video_paths db_path collection_name)
          = Inr \<lparr>rep_results = results,
                 rep_successful = sum_list (map (\<lambda>r. 1) (filter res_success results)),
                 rep_total_embeddings = sum_list (map res_embeddings_count results)\<rparr>"
    using rs
    by (simp add: process_multiple_videos_def print_then_def assms case_prod_beta Let_def
        split: sum.splits)
  then show ?thesis using rs by simp
qed


section \<open>Persisting matched frames\<close>


















end
